theory Spec2Isabelle
  imports Complex_Main "HOL-Library.Sublist"
begin

section \<open>Stock summary view\<close>

text \<open>
  The view \<^verbatim>\<open>stock_summary\<close> is a single SQL \<^verbatim>\<open>SELECT\<close> over the tables
  \<^verbatim>\<open>stock\<close>, \<^verbatim>\<open>item_master\<close>, \<^verbatim>\<open>categories\<close>, \<^verbatim>\<open>grn_log\<close> and \<^verbatim>\<open>issue_log\<close>.
  The table declarations are not part of the sources, so the columns the view reads are
  taken as follows: quantities are SQL \<^verbatim>\<open>numeric\<close> values that are not null, modelled as
  exact rationals (division is exact, the scale a database engine would cut a quotient
  to is not modelled); timestamps and the current date are points on one integer time
  axis counted in seconds; keys are strings. A nullable value is an \<open>option\<close>,
  with \<open>None\<close> for \<^verbatim>\<open>NULL\<close>.
\<close>

record category =
  cat_id :: string
  category_name :: string

record stock_rec =
  stock_item_code :: string
  stock_opening_qty :: rat
  stock_current_qty :: rat

record item_master_rec =
  im_item_code :: string
  im_item_name :: string
  im_category_id :: "string option"

record grn_rec =
  grn_item_code :: string
  qty_received :: rat

record issue_rec =
  issue_item_code :: string
  qty_issued :: rat
  created_at :: int

record database =
  stock :: "stock_rec list"
  item_master :: "item_master_rec list"
  categories :: "category list"
  grn_log :: "grn_rec list"
  issue_log :: "issue_rec list"

record stock_summary_row =
  item_code :: string
  item_name :: "string option"
  summary_category_name :: "string option"
  opening_qty :: rat
  total_grn_qty :: rat
  total_issued_qty :: rat
  current_qty :: rat
  calculated_qty :: rat
  issue_7d :: rat
  issue_30d :: rat
  issue_90d :: rat
  days_of_cover :: "rat option"
  days_of_cover_7d :: "rat option"
  days_of_cover_90d :: "rat option"
  stock_validation_status :: string
  consumption_rate_7d :: "rat option"
  consumption_rate_30d :: "rat option"
  consumption_rate_90d :: "rat option"

text \<open>\<^verbatim>\<open>COALESCE(x, d)\<close> with a default that is not null.\<close>

definition coalesce :: "'a option \<Rightarrow> 'a \<Rightarrow> 'a" where
  "coalesce x d = (case x of None \<Rightarrow> d | Some v \<Rightarrow> v)"

text \<open>
  \<^verbatim>\<open>ROUND(x, d)\<close> on \<^verbatim>\<open>numeric\<close>: to \<open>d\<close> decimal places, ties away from zero.
\<close>

definition sql_round :: "rat \<Rightarrow> nat \<Rightarrow> rat" where
  "sql_round x d = sgn x * of_int \<lfloor>\<bar>x\<bar> * 10 ^ d + 1 / 2\<rfloor> / 10 ^ d"

text \<open>\<^verbatim>\<open>INTERVAL 'n days'\<close> on the time axis.\<close>

definition interval_days :: "int \<Rightarrow> int" where
  "interval_days n = n * 86400"

text \<open>
  A \<^verbatim>\<open>LEFT JOIN\<close> keeps the left row once for every matching right row, and once
  with nulls when there is none.
\<close>

definition left_join :: "'a list \<Rightarrow> 'a option list" where
  "left_join ms = (if ms = [] then [None] else map Some ms)"

text \<open>
  The aggregate subqueries \<^verbatim>\<open>grn_totals\<close>, \<^verbatim>\<open>issue_totals\<close> and
  \<^verbatim>\<open>recent_consumption_Nd\<close>, each read at the item code it is joined on:
  \<^verbatim>\<open>GROUP BY item_code\<close> yields one row for a code that occurs in the (filtered) log
  and none otherwise, so the joined column is the sum, or null.
\<close>

definition grn_totals :: "database \<Rightarrow> string \<Rightarrow> rat option" where
  "grn_totals db code =
     (let g = filter (\<lambda>r. grn_item_code r = code) (grn_log db)
      in if g = [] then None else Some (sum_list (map qty_received g)))"

definition issue_totals :: "database \<Rightarrow> string \<Rightarrow> rat option" where
  "issue_totals db code =
     (let g = filter (\<lambda>r. issue_item_code r = code) (issue_log db)
      in if g = [] then None else Some (sum_list (map qty_issued g)))"

definition recent_consumption :: "int \<Rightarrow> int \<Rightarrow> database \<Rightarrow> string \<Rightarrow> rat option" where
  "recent_consumption days current_date db code =
     (let g = filter (\<lambda>r. issue_item_code r = code)
                (filter (\<lambda>r. created_at r \<ge> current_date - interval_days days) (issue_log db))
      in if g = [] then None else Some (sum_list (map qty_issued g)))"

text \<open>
  The three \<^verbatim>\<open>CASE\<close> shapes of the select list. In the first branch the SQL reads
  the joined column itself, not its \<^verbatim>\<open>COALESCE\<close>; arithmetic on null is null.
\<close>

definition days_of_cover_case :: "rat \<Rightarrow> rat option \<Rightarrow> rat \<Rightarrow> rat option" where
  "days_of_cover_case cur issue period =
     (if coalesce issue 0 > 0
      then map_option (\<lambda>x. sql_round (cur / (x / period)) 1) issue
      else if cur > 0 \<and> coalesce issue 0 = 0
      then Some 999999
      else Some 0)"

definition consumption_rate_case :: "rat option \<Rightarrow> rat \<Rightarrow> rat option" where
  "consumption_rate_case issue period =
     (if coalesce issue 0 > 0
      then map_option (\<lambda>x. sql_round (x / period) 3) issue
      else Some 0)"

definition validation_status_case :: "rat \<Rightarrow> rat option \<Rightarrow> rat option \<Rightarrow> rat \<Rightarrow> string" where
  "validation_status_case opening grn issued cur =
     (if \<bar>(opening + coalesce grn 0 - coalesce issued 0) - cur\<bar> > 1 / 100
      then ''MISMATCH''
      else ''OK'')"

text \<open>The select list, for one row of the join.\<close>

definition summary_row ::
  "int \<Rightarrow> database \<Rightarrow> stock_rec \<Rightarrow> item_master_rec option \<Rightarrow> category option
     \<Rightarrow> stock_summary_row" where
  "summary_row current_date db s im c =
     (let code = stock_item_code s;
          grn = grn_totals db code;
          issued = issue_totals db code;
          i7 = recent_consumption 7 current_date db code;
          i30 = recent_consumption 30 current_date db code;
          i90 = recent_consumption 90 current_date db code
      in \<lparr> item_code = code,
           item_name = map_option im_item_name im,
           summary_category_name = map_option category_name c,
           opening_qty = stock_opening_qty s,
           total_grn_qty = coalesce grn 0,
           total_issued_qty = coalesce issued 0,
           current_qty = stock_current_qty s,
           calculated_qty = stock_opening_qty s + coalesce grn 0 - coalesce issued 0,
           issue_7d = coalesce i7 0,
           issue_30d = coalesce i30 0,
           issue_90d = coalesce i90 0,
           days_of_cover = days_of_cover_case (stock_current_qty s) i30 30,
           days_of_cover_7d = days_of_cover_case (stock_current_qty s) i7 7,
           days_of_cover_90d = days_of_cover_case (stock_current_qty s) i90 90,
           stock_validation_status =
             validation_status_case (stock_opening_qty s) grn issued (stock_current_qty s),
           consumption_rate_7d = consumption_rate_case i7 7,
           consumption_rate_30d = consumption_rate_case i30 30,
           consumption_rate_90d = consumption_rate_case i90 90 \<rparr>)"

text \<open>
  The \<^verbatim>\<open>FROM\<close> clause: \<^verbatim>\<open>stock\<close> left-joined with \<^verbatim>\<open>item_master\<close> on the item
  code and with \<^verbatim>\<open>categories\<close> on the item's category id.
\<close>

definition joined_item_master :: "database \<Rightarrow> stock_rec \<Rightarrow> item_master_rec option list" where
  "joined_item_master db s =
     left_join (filter (\<lambda>im. stock_item_code s = im_item_code im) (item_master db))"

definition joined_categories :: "database \<Rightarrow> item_master_rec option \<Rightarrow> category option list" where
  "joined_categories db im =
     left_join (filter (\<lambda>c. (case im of None \<Rightarrow> False
                                | Some i \<Rightarrow> im_category_id i = Some (cat_id c)))
                  (categories db))"

definition stock_summary :: "int \<Rightarrow> database \<Rightarrow> stock_summary_row list" where
  "stock_summary current_date db =
     concat (map (\<lambda>s.
       concat (map (\<lambda>im.
         map (\<lambda>c. summary_row current_date db s im c) (joined_categories db im))
       (joined_item_master db s)))
     (stock db))"

text \<open>A small database used to run the view.\<close>

definition example_db :: database where
  "example_db =
     \<lparr> stock = [\<lparr> stock_item_code = ''RAW001'', stock_opening_qty = 100,
                   stock_current_qty = 120 \<rparr>,
                 \<lparr> stock_item_code = ''PKG001'', stock_opening_qty = 50,
                   stock_current_qty = 100 \<rparr>,
                 \<lparr> stock_item_code = ''FIN001'', stock_opening_qty = 5,
                   stock_current_qty = 5 \<rparr>],
       item_master = [\<lparr> im_item_code = ''RAW001'', im_item_name = ''Raw Material 1'',
                         im_category_id = Some ''c1'' \<rparr>],
       categories = [\<lparr> cat_id = ''c1'', category_name = ''Raw Materials'' \<rparr>],
       grn_log = [\<lparr> grn_item_code = ''RAW001'', qty_received = 50 \<rparr>],
       issue_log = [\<lparr> issue_item_code = ''RAW001'', qty_issued = 30,
                       created_at = 5 * 86400 \<rparr>,
                    \<lparr> issue_item_code = ''PKG001'', qty_issued = 1,
                       created_at = 0 \<rparr>] \<rparr>"

definition example_today :: int where
  "example_today = 10 * 86400"



section \<open>JavaScript values\<close>

text \<open>
  A JavaScript string is modelled as a list of 8-bit characters, read as the code units
  U+0000 to U+00FF; text outside this range is not modelled. An object built from a CSV
  row is a list of key and value pairs in insertion order; a property that is absent
  reads as \<open>None\<close> (\<^verbatim>\<open>undefined\<close>).
\<close>

type_synonym js_object = "(string \<times> string) list"

definition property :: "js_object \<Rightarrow> string \<Rightarrow> string option" where
  "property obj k = map_of obj k"

fun obj_set :: "string \<Rightarrow> string \<Rightarrow> js_object \<Rightarrow> js_object" where
  "obj_set k v [] = [(k, v)]"
| "obj_set k v ((k', v') # kvs) =
     (if k' = k then (k, v) # kvs else (k', v') # obj_set k v kvs)"

text \<open>White space as \<^verbatim>\<open>String.prototype.trim\<close> and \<^verbatim>\<open>parseFloat\<close> skip it.\<close>

definition is_space :: "char \<Rightarrow> bool" where
  "is_space c =
     (c \<in> set [CHR 0x09, CHR 0x0A, CHR 0x0B, CHR 0x0C, CHR 0x0D, CHR 0x20, CHR 0xA0])"

definition trim :: "string \<Rightarrow> string" where
  "trim s = rev (dropWhile is_space (rev (dropWhile is_space s)))"

definition lower_char :: "char \<Rightarrow> char" where
  "lower_char c =
     (let n = (of_char c :: nat)
      in if (65 \<le> n \<and> n \<le> 90) \<or> (192 \<le> n \<and> n \<le> 222 \<and> n \<noteq> 215)
         then char_of (n + 32) else c)"

definition toLowerCase :: "string \<Rightarrow> string" where
  "toLowerCase s = map lower_char s"

text \<open>\<^verbatim>\<open>s.split(sep)\<close> for a separator of one character.\<close>

fun split :: "char \<Rightarrow> string \<Rightarrow> string list" where
  "split sep [] = [[]]"
| "split sep (c # cs) =
     (if c = sep then [] # split sep cs
      else (case split sep cs of
              [] \<Rightarrow> [[c]]
            | p # ps \<Rightarrow> (c # p) # ps))"

text \<open>
  \<^verbatim>\<open>s.replace(/^"|"$/g, '')\<close>: a double quote at the start is removed, and a double
  quote at the end of what follows it.
\<close>

definition strip_quotes :: "string \<Rightarrow> string" where
  "strip_quotes s =
     (let s1 = (case s of [] \<Rightarrow> [] | c # cs \<Rightarrow> if c = CHR 0x22 then cs else s)
      in if s1 \<noteq> [] \<and> last s1 = CHR 0x22 then butlast s1 else s1)"

text \<open>
  \<^verbatim>\<open>isNaN(parseFloat(s))\<close>: \<^verbatim>\<open>parseFloat\<close> skips leading white space and reads the
  longest prefix that is a decimal literal; the result is \<^verbatim>\<open>NaN\<close> exactly when there
  is no such prefix, that is, unless after an optional sign the text starts with
  \<^verbatim>\<open>Infinity\<close>, with a digit, or with a dot and a digit.
\<close>

definition is_digit :: "char \<Rightarrow> bool" where
  "is_digit c = (c \<in> set ''0123456789'')"

definition starts_number :: "string \<Rightarrow> bool" where
  "starts_number s =
     (take 8 s = ''Infinity'' \<or>
      (case s of
         [] \<Rightarrow> False
       | c # cs \<Rightarrow> is_digit c \<or>
           (c = CHR ''.'' \<and> (case cs of [] \<Rightarrow> False | d # _ \<Rightarrow> is_digit d))))"

definition parseFloat_isNaN :: "string \<Rightarrow> bool" where
  "parseFloat_isNaN s =
     (case dropWhile is_space s of
        [] \<Rightarrow> True
      | c # cs \<Rightarrow>
          if c = CHR ''+'' \<or> c = CHR ''-'' then \<not> starts_number cs
          else \<not> starts_number (c # cs))"

text \<open>
  The number \<^verbatim>\<open>parseFloat(s)\<close> is carried as the text it was read from, so no
  floating-point value is computed.
\<close>

datatype js_number = ParseFloat string | Zero

text \<open>A value that is a string or \<^verbatim>\<open>undefined\<close>, used as a condition.\<close>

definition truthy :: "string option \<Rightarrow> bool" where
  "truthy v = (case v of None \<Rightarrow> False | Some s \<Rightarrow> s \<noteq> [])"

text \<open>\<^verbatim>\<open>!v?.trim()\<close>\<close>

definition blank :: "string option \<Rightarrow> bool" where
  "blank v = (case v of None \<Rightarrow> True | Some s \<Rightarrow> trim s = [])"

text \<open>\<^verbatim>\<open>v || null\<close>, \<^verbatim>\<open>v || d\<close> and a value inside a template literal.\<close>

definition or_null :: "string option \<Rightarrow> string option" where
  "or_null v = (if truthy v then v else None)"

definition or_default :: "string option \<Rightarrow> string \<Rightarrow> string" where
  "or_default v d = (case v of None \<Rightarrow> d | Some s \<Rightarrow> if s = [] then d else s)"

definition template :: "string option \<Rightarrow> string" where
  "template v = (case v of None \<Rightarrow> ''undefined'' | Some s \<Rightarrow> s)"

text \<open>\<^verbatim>\<open>v ? parseFloat(v) : null\<close>\<close>

definition gsm_number :: "string option \<Rightarrow> js_number option" where
  "gsm_number v = (if truthy v then map_option ParseFloat v else None)"

section \<open>Parsing the CSV text\<close>

record CSVData =
  headers :: "string list"
  rows :: "string list list"

datatype parse_error = ParseError string

text \<open>The character loop of \<^verbatim>\<open>parseCSV\<close> over one data line.\<close>

fun scan_line :: "string \<Rightarrow> string list \<Rightarrow> string \<Rightarrow> bool \<Rightarrow> string list" where
  "scan_line [] cells current inQuotes = cells @ [strip_quotes (trim current)]"
| "scan_line (c # cs) cells current inQuotes =
     (if c = CHR 0x22 then scan_line cs cells current (\<not> inQuotes)
      else if c = CHR '','' \<and> \<not> inQuotes
      then scan_line cs (cells @ [strip_quotes (trim current)]) [] inQuotes
      else scan_line cs cells (current @ [c]) inQuotes)"

definition parseCSV :: "string \<Rightarrow> parse_error + CSVData" where
  "parseCSV text =
     (case filter (\<lambda>line. trim line \<noteq> []) (split CHR 0x0A text) of
        [] \<Rightarrow> Inl (ParseError ''CSV file is empty'')
      | header_line # data_lines \<Rightarrow>
          Inr \<lparr> headers = map (\<lambda>h. strip_quotes (trim h)) (split CHR '','' header_line),
                rows = map (\<lambda>line. scan_line line [] [] False) data_lines \<rparr>)"

text \<open>
  The conversion of the parsed rows to objects, as \<^verbatim>\<open>handleFileChange\<close> and
  \<^verbatim>\<open>executeUpload\<close> both do it: \<^verbatim>\<open>obj[header.toLowerCase()] = row[index] || ''\<close>.
\<close>

definition cell :: "string list \<Rightarrow> nat \<Rightarrow> string" where
  "cell r i = (if i < length r then r ! i else [])"

definition to_object :: "string list \<Rightarrow> string list \<Rightarrow> js_object" where
  "to_object hs r =
     foldl (\<lambda>obj (h, i). obj_set (toLowerCase h) (cell r i) obj) []
       (zip hs [0..<length hs])"

section \<open>Row validation of the item-master import\<close>

record ValidationError =
  ve_row :: nat
  ve_field :: string
  ve_message :: string
  ve_data :: js_object

definition find_category :: "category list \<Rightarrow> string option \<Rightarrow> category option" where
  "find_category cats name =
     List.find (\<lambda>cat. Some (toLowerCase (category_name cat)) = map_option toLowerCase name) cats"

definition validateRow :: "category list \<Rightarrow> js_object \<Rightarrow> nat \<Rightarrow> ValidationError list" where
  \<open>validateRow cats rowData rowIndex =
     (let err = (\<lambda>f m. \<lparr> ve_row = rowIndex + 2, ve_field = f, ve_message = m,
                          ve_data = rowData \<rparr>);
          errors1 =
            (if blank (property rowData ''item_name'')
             then [err ''item_name'' ''Item name is required'']
             else []);
          errors2 =
            (if blank (property rowData ''category_name'')
             then errors1 @ [err ''category_name'' ''Category name is required'']
             else if find_category cats (property rowData ''category_name'') = None
             then errors1 @ [err ''category_name''
                    (''Category '' @ [CHR 0x27] @ template (property rowData ''category_name'')
                       @ [CHR 0x27] @ '' does not exist'')]
             else errors1);
          errors3 =
            (if blank (property rowData ''uom'')
             then errors2 @ [err ''uom'' ''UOM is required'']
             else errors2);
          errors4 =
            (if truthy (property rowData ''gsm'') \<and>
                parseFloat_isNaN (template (property rowData ''gsm''))
             then errors3 @ [err ''gsm'' ''GSM must be a valid number'']
             else errors3);
          errors5 =
            (if truthy (property rowData ''status'') \<and>
                toLowerCase (template (property rowData ''status'')) \<notin> set [''active'', ''inactive'']
             then errors4 @ [err ''status''
                    ''Status must be either "active" or "inactive"'']
             else errors4)
      in errors5)\<close>



section \<open>The remote backend\<close>

text \<open>
  Every \<^verbatim>\<open>await supabase...\<close> is a call to a service outside the program. A call
  either resolves to a \<^verbatim>\<open>{ data, error }\<close> pair or rejects with a thrown value. What
  the service answers is a parameter of the model: a \<open>backend\<close> maps the calls made
  so far and the next call to its reply, so it may answer the same request differently
  over time. The calls made are recorded in order; they are the program's only access to
  the datastore.
\<close>

datatype js_error = JsError (instanceof_Error: bool) (error_message: string)

datatype reply =
    Resolved (reply_data: "string option") (reply_error: "js_error option")
  | Rejected js_error

record apply_error =
  row :: nat
  message :: string

record item_fields =
  f_item_name :: "string option"
  f_category_id :: string
  f_qualifier :: "string option"
  f_gsm :: "js_number option"
  f_size_mm :: "string option"
  f_uom :: "string option"
  f_usage_type :: "string option"
  f_status :: string

record upload_log =
  log_user_id :: string
  log_file_name :: string
  log_file_type :: string
  log_total_rows :: nat
  log_success_rows :: nat
  log_error_rows :: nat
  log_errors :: "apply_error list"

record opening_item =
  oi_item_code :: "string option"
  oi_item_name :: "string option"
  oi_category_id :: "string option"
  oi_uom :: string
  oi_status :: string

text \<open>
  The requests the two imports make, with what they send:
  \<^item> \<open>GenerateItemCode\<close>: the remote procedure \<^verbatim>\<open>generate_item_code\<close> with category
    name, qualifier, size and gsm; the reply's data is the item code;
  \<^item> \<open>ItemMasterUpdate\<close>: the column values and the item code the update is filtered
    on; \<open>ItemMasterInsert\<close>: the item code, sent as \<^verbatim>\<open>item_code\<close> and as
    \<^verbatim>\<open>auto_code\<close>, and the column values;
  \<^item> \<open>StockInsert\<close>: the item code, with opening and current quantity 0;
  \<^item> \<open>AuthGetUser\<close>: the reply's data is the id of the signed-in user, if any;
  \<^item> \<open>CsvUploadLogInsert\<close>: the row for \<^verbatim>\<open>csv_upload_log\<close>;
  \<^item> \<open>CategoriesSelectIlike\<close>: the single category whose name matches the pattern,
    the reply's data being its id; \<open>CategoriesInsert\<close>: name and description, the
    reply's data being the new id;
  \<^item> \<open>ItemMasterUpsert\<close> and \<open>StockUpsert\<close>: the item, and the item code with the
    quantity that becomes both opening and current quantity.
\<close>

datatype call =
    GenerateItemCode string string string "js_number option"
  | ItemMasterUpdate item_fields "string option"
  | ItemMasterInsert "string option" item_fields
  | StockInsert "string option"
  | AuthGetUser
  | CsvUploadLogInsert upload_log
  | CategoriesSelectIlike string
  | CategoriesInsert string string
  | ItemMasterUpsert opening_item
  | StockUpsert "string option" js_number

type_synonym backend = "call list \<Rightarrow> call \<Rightarrow> reply"

text \<open>\<^verbatim>\<open>error instanceof Error ? error.message : 'Unknown error'\<close>\<close>

definition catch_message :: "js_error \<Rightarrow> string" where
  "catch_message e = (if instanceof_Error e then error_message e else ''Unknown error'')"

section \<open>Applying the item-master import\<close>

datatype action = ActionSkip | ActionUpdate | ActionError

record ConflictItem =
  conflict_row :: nat
  conflict_item_code :: string
  conflict_action :: action
  conflict_data :: js_object

record item =
  item_data :: js_object
  originalRowIndex :: nat

record apply_state =
  calls :: "call list"
  totalSuccess :: nat
  allErrors :: "apply_error list"
  progress :: "(nat \<times> nat) list"

record upload_result =
  success :: nat
  errors :: "apply_error list"
  total :: nat

record upload_outcome =
  uploadResult :: "upload_result option"
  backend_calls :: "call list"
  progress_reports :: "(nat \<times> nat) list"

definition await :: "backend \<Rightarrow> call \<Rightarrow> apply_state \<Rightarrow> reply \<times> apply_state" where
  "await be c st = (be (calls st) c, st\<lparr>calls := calls st @ [c]\<rparr>)"

definition push_error :: "apply_state \<Rightarrow> item \<Rightarrow> string \<Rightarrow> apply_state" where
  "push_error st it m =
     st\<lparr>allErrors := allErrors st @ [\<lparr> row = originalRowIndex it, message = m \<rparr>]\<rparr>"

definition count_success :: "apply_state \<Rightarrow> apply_state" where
  "count_success st = st\<lparr>totalSuccess := totalSuccess st + 1\<rparr>"

text \<open>
  The column values sent with an update or an insert. The \<^verbatim>\<open>updated_at\<close> time stamp
  of the update is left out.
\<close>

definition item_payload :: "category \<Rightarrow> item \<Rightarrow> item_fields" where
  "item_payload cat it =
     \<lparr> f_item_name = property (item_data it) ''item_name'',
       f_category_id = cat_id cat,
       f_qualifier = or_null (property (item_data it) ''qualifier''),
       f_gsm = gsm_number (property (item_data it) ''gsm''),
       f_size_mm = or_null (property (item_data it) ''size_mm''),
       f_uom = property (item_data it) ''uom'',
       f_usage_type = or_null (property (item_data it) ''usage_type''),
       f_status = or_default (property (item_data it) ''status'') ''active'' \<rparr>"

definition find_conflict :: "ConflictItem list \<Rightarrow> nat \<Rightarrow> ConflictItem option" where
  "find_conflict conflicts r = List.find (\<lambda>c. conflict_row c = r) conflicts"

text \<open>\<^verbatim>\<open>conflict && conflict.action === 'update'\<close>\<close>

definition is_update :: "ConflictItem list \<Rightarrow> item \<Rightarrow> bool" where
  "is_update conflicts it =
     (case find_conflict conflicts (originalRowIndex it) of
        None \<Rightarrow> False
      | Some c \<Rightarrow> conflict_action c = ActionUpdate)"

text \<open>The update branch and the insert branch of the loop body, after the item code.\<close>

definition update_item :: "backend \<Rightarrow> category \<Rightarrow> item \<Rightarrow> string option \<Rightarrow> apply_state \<Rightarrow> apply_state" where
  "update_item be cat it itemCode st =
     (case await be (ItemMasterUpdate (item_payload cat it) itemCode) st of
        (Rejected e, st1) \<Rightarrow> push_error st1 it (catch_message e)
      | (Resolved d updateError, st1) \<Rightarrow>
          (case updateError of
             Some e \<Rightarrow> push_error st1 it (''Error updating item: '' @ error_message e)
           | None \<Rightarrow> count_success st1))"

definition insert_item :: "backend \<Rightarrow> category \<Rightarrow> item \<Rightarrow> string option \<Rightarrow> apply_state \<Rightarrow> apply_state" where
  "insert_item be cat it itemCode st =
     (case await be (ItemMasterInsert itemCode (item_payload cat it)) st of
        (Rejected e, st1) \<Rightarrow> push_error st1 it (catch_message e)
      | (Resolved d insertError, st1) \<Rightarrow>
          (case insertError of
             Some e \<Rightarrow> push_error st1 it (''Error inserting item: '' @ error_message e)
           | None \<Rightarrow>
               (case await be (StockInsert itemCode) st1 of
                  (Rejected e, st2) \<Rightarrow> push_error st2 it (catch_message e)
                | (Resolved d2 stockError, st2) \<Rightarrow> count_success st2)))"

text \<open>The request \<^verbatim>\<open>supabase.rpc('generate_item_code', ...)\<close> for an item.\<close>

definition generate_item_code :: "category \<Rightarrow> item \<Rightarrow> call" where
  "generate_item_code cat it =
     GenerateItemCode (category_name cat)
       (or_default (property (item_data it) ''qualifier'') [])
       (or_default (property (item_data it) ''size_mm'') [])
       (gsm_number (property (item_data it) ''gsm''))"

text \<open>
  The body of \<^verbatim>\<open>for (const item of batch)\<close>: the \<^verbatim>\<open>try\<close> block with its
  \<^verbatim>\<open>continue\<close> statements, and the \<^verbatim>\<open>catch\<close> that a rejected call reaches.
\<close>

definition process_item :: "backend \<Rightarrow> category list \<Rightarrow> ConflictItem list \<Rightarrow> item \<Rightarrow> apply_state \<Rightarrow> apply_state" where
  "process_item be cats conflicts it st =
     (case find_category cats (property (item_data it) ''category_name'') of
        None \<Rightarrow>
          push_error st it
            (''Category '' @ [CHR 0x27] @ template (property (item_data it) ''category_name'')
               @ [CHR 0x27] @ '' not found'')
      | Some cat \<Rightarrow>
          (case await be (generate_item_code cat it) st of
             (Rejected e, st1) \<Rightarrow> push_error st1 it (catch_message e)
           | (Resolved itemCode codeError, st1) \<Rightarrow>
               (case codeError of
                  Some e \<Rightarrow>
                    push_error st1 it (''Error generating item code: '' @ error_message e)
                | None \<Rightarrow>
                    if is_update conflicts it
                    then update_item be cat it itemCode st1
                    else insert_item be cat it itemCode st1)))"

text \<open>
  The outer loop \<^verbatim>\<open>for (let i = 0; i < itemsToProcess.length; i += batchSize)\<close>. The
  progress report after a batch is recorded as the pair of \<^verbatim>\<open>i + batch.length\<close> and
  \<^verbatim>\<open>itemsToProcess.length\<close> from which the percentage is computed.
\<close>

definition batchSize :: nat where
  "batchSize = 10"

function upload_loop :: "backend \<Rightarrow> category list \<Rightarrow> ConflictItem list \<Rightarrow> item list \<Rightarrow> nat \<Rightarrow> apply_state \<Rightarrow> apply_state" where
  "upload_loop be cats conflicts its i st =
     (if i < length its
      then (let batch = take batchSize (drop i its);
                st1 = fold (process_item be cats conflicts) batch st;
                st2 = st1\<lparr>progress := progress st1 @ [(i + length batch, length its)]\<rparr>
            in upload_loop be cats conflicts its (i + batchSize) st2)
      else st)"
  by pat_completeness auto
termination
  by (relation "measure (\<lambda>(be, cats, conflicts, its, i, st). length its - i)")
    (auto simp: batchSize_def)

text \<open>
  \<^verbatim>\<open>executeUpload\<close> for a selected file and parsed data: the objects with their row
  numbers, the filter on the conflict decisions, the loop, the upload log and the
  reported result. A rejected call outside the loop reaches the outer \<^verbatim>\<open>catch\<close>,
  which reports no result.
\<close>

definition upload_items :: "CSVData \<Rightarrow> item list" where
  "upload_items csv =
     map (\<lambda>(r, index). \<lparr> item_data = to_object (headers csv) r, originalRowIndex = index + 2 \<rparr>)
       (zip (rows csv) [0..<length (rows csv)])"

definition keep_item :: "ConflictItem list \<Rightarrow> nat \<Rightarrow> bool" where
  "keep_item conflicts index =
     (case find_conflict conflicts (index + 2) of
        None \<Rightarrow> True
      | Some c \<Rightarrow> conflict_action c \<noteq> ActionSkip)"

definition itemsToProcess :: "ConflictItem list \<Rightarrow> item list \<Rightarrow> item list" where
  "itemsToProcess conflicts its =
     map fst (filter (\<lambda>(it, index). keep_item conflicts index) (zip its [0..<length its]))"

definition initial_state :: apply_state where
  "initial_state = \<lparr> calls = [], totalSuccess = 0, allErrors = [], progress = [] \<rparr>"

definition apply_rows :: "backend \<Rightarrow> category list \<Rightarrow> ConflictItem list \<Rightarrow> CSVData \<Rightarrow> apply_state" where
  "apply_rows be cats conflicts csv =
     upload_loop be cats conflicts (itemsToProcess conflicts (upload_items csv)) 0 initial_state"

definition report :: "apply_state \<Rightarrow> upload_result option \<Rightarrow> upload_outcome" where
  "report st res =
     \<lparr> uploadResult = res, backend_calls = calls st, progress_reports = progress st \<rparr>"

definition reported :: "apply_state \<Rightarrow> CSVData \<Rightarrow> upload_result" where
  "reported st csv =
     \<lparr> success = totalSuccess st, errors = allErrors st, total = length (upload_items csv) \<rparr>"

definition upload_log_entry :: "string \<Rightarrow> string \<Rightarrow> CSVData \<Rightarrow> apply_state \<Rightarrow> upload_log" where
  "upload_log_entry uid file_name csv st =
     \<lparr> log_user_id = uid,
       log_file_name = file_name,
       log_file_type = ''item_master'',
       log_total_rows = length (upload_items csv),
       log_success_rows = totalSuccess st,
       log_error_rows = length (allErrors st),
       log_errors = allErrors st \<rparr>"

definition executeUpload :: "backend \<Rightarrow> category list \<Rightarrow> ConflictItem list \<Rightarrow> string \<Rightarrow> CSVData \<Rightarrow> upload_outcome" where
  "executeUpload be cats conflicts file_name csv =
     (let st = apply_rows be cats conflicts csv
      in case await be AuthGetUser st of
           (Rejected e, st1) \<Rightarrow> report st1 None
         | (Resolved user e, st1) \<Rightarrow>
             (case user of
                None \<Rightarrow> report st1 (Some (reported st1 csv))
              | Some uid \<Rightarrow>
                  (case await be (CsvUploadLogInsert (upload_log_entry uid file_name csv st1)) st1 of
                     (Rejected e2, st2) \<Rightarrow> report st2 None
                   | (Resolved d e2, st2) \<Rightarrow> report st2 (Some (reported st2 csv)))))"

section \<open>The opening-stock import\<close>

text \<open>
  \<^verbatim>\<open>processOpeningStock\<close> receives the data rows as objects from the generic upload
  component. A thrown value is the left summand; reading \<^verbatim>\<open>newCategory.id\<close> when no
  row came back throws a \<^verbatim>\<open>TypeError\<close>.
\<close>

record opening_error =
  oe_row :: nat
  oe_message :: string
  oe_data :: js_object

record opening_state =
  os_calls :: "call list"
  os_success :: nat
  os_errors :: "opening_error list"

definition os_await :: "backend \<Rightarrow> call \<Rightarrow> opening_state \<Rightarrow> reply \<times> opening_state" where
  "os_await be c st = (be (os_calls st) c, st\<lparr>os_calls := os_calls st @ [c]\<rparr>)"

definition os_catch :: "opening_state \<Rightarrow> nat \<Rightarrow> js_object \<Rightarrow> js_error \<Rightarrow> opening_state" where
  "os_catch st i r e =
     st\<lparr>os_errors := os_errors st @
          [\<lparr> oe_row = i + 1, oe_message = catch_message e, oe_data = r \<rparr>]\<rparr>"

definition null_id_error :: js_error where
  "null_id_error = JsError True ''Cannot read properties of null''"

text \<open>\<^verbatim>\<open>a || b\<close> on two values that are strings or \<^verbatim>\<open>undefined\<close>.\<close>

definition or_else :: "string option \<Rightarrow> string option \<Rightarrow> string option" where
  "or_else a b = (if truthy a then a else b)"

text \<open>\<^verbatim>\<open>parseFloat(v) || 0\<close>\<close>

definition opening_number :: "string option \<Rightarrow> js_number" where
  "opening_number v =
     (case v of
        None \<Rightarrow> Zero
      | Some s \<Rightarrow> if parseFloat_isNaN s then Zero else ParseFloat s)"

text \<open>The block \<^verbatim>\<open>// Find or create category\<close>.\<close>

definition find_or_create_category :: "backend \<Rightarrow> js_object \<Rightarrow> opening_state \<Rightarrow> (js_error + string option) \<times> opening_state" where
  "find_or_create_category be r st =
     (if truthy (property r ''category'')
      then (case os_await be (CategoriesSelectIlike (template (property r ''category''))) st of
              (Rejected e, st1) \<Rightarrow> (Inl e, st1)
            | (Resolved existingCategory e0, st1) \<Rightarrow>
                (case existingCategory of
                   Some cid \<Rightarrow> (Inr (Some cid), st1)
                 | None \<Rightarrow>
                     (case os_await be
                             (CategoriesInsert (template (property r ''category''))
                                ''Auto-created from CSV import'') st1 of
                        (Rejected e, st2) \<Rightarrow> (Inl e, st2)
                      | (Resolved newCategory categoryError, st2) \<Rightarrow>
                          (case categoryError of
                             Some e \<Rightarrow> (Inl e, st2)
                           | None \<Rightarrow>
                               (case newCategory of
                                  None \<Rightarrow> (Inl null_id_error, st2)
                                | Some cid \<Rightarrow> (Inr (Some cid), st2))))))
      else (Inr None, st))"

definition opening_item_payload :: "js_object \<Rightarrow> string option \<Rightarrow> opening_item" where
  "opening_item_payload r categoryId =
     \<lparr> oi_item_code = property r ''item_code'',
       oi_item_name = or_else (property r ''item_name'') (property r ''item_code''),
       oi_category_id = categoryId,
       oi_uom = or_default (property r ''uom'') ''PCS'',
       oi_status = ''active'' \<rparr>"

definition upsert_item_and_stock :: "backend \<Rightarrow> js_object \<Rightarrow> nat \<Rightarrow> string option \<Rightarrow> opening_state \<Rightarrow> opening_state" where
  "upsert_item_and_stock be r i categoryId st =
     (case os_await be (ItemMasterUpsert (opening_item_payload r categoryId)) st of
        (Rejected e, st1) \<Rightarrow> os_catch st1 i r e
      | (Resolved d itemError, st1) \<Rightarrow>
          (case itemError of
             Some e \<Rightarrow> os_catch st1 i r e
           | None \<Rightarrow>
               (case os_await be
                       (StockUpsert (property r ''item_code'')
                          (opening_number (property r ''opening_qty''))) st1 of
                  (Rejected e, st2) \<Rightarrow> os_catch st2 i r e
                | (Resolved d2 stockError, st2) \<Rightarrow>
                    (case stockError of
                       Some e \<Rightarrow> os_catch st2 i r e
                     | None \<Rightarrow> st2\<lparr>os_success := os_success st2 + 1\<rparr>))))"

definition process_opening_row :: "backend \<Rightarrow> js_object \<times> nat \<Rightarrow> opening_state \<Rightarrow> opening_state" where
  "process_opening_row be ri st =
     (case find_or_create_category be (fst ri) st of
        (Inl e, st1) \<Rightarrow> os_catch st1 (snd ri) (fst ri) e
      | (Inr categoryId, st1) \<Rightarrow> upsert_item_and_stock be (fst ri) (snd ri) categoryId st1)"

definition processOpeningStock :: "backend \<Rightarrow> js_object list \<Rightarrow> opening_state" where
  "processOpeningStock be data =
     fold (process_opening_row be) (zip data [0..<length data])
       \<lparr> os_calls = [], os_success = 0, os_errors = [] \<rparr>"

section \<open>Notions used to state the properties\<close>

text \<open>A row number whose conflict decision is \<^verbatim>\<open>skip\<close>.\<close>

definition is_skipped :: "ConflictItem list \<Rightarrow> nat \<Rightarrow> bool" where
  "is_skipped conflicts r =
     (case find_conflict conflicts r of
        None \<Rightarrow> False
      | Some c \<Rightarrow> conflict_action c = ActionSkip)"

text \<open>The rows of the file that are not skipped, in file order.\<close>

definition kept_items :: "ConflictItem list \<Rightarrow> CSVData \<Rightarrow> item list" where
  "kept_items conflicts csv =
     filter (\<lambda>it. \<not> is_skipped conflicts (originalRowIndex it)) (upload_items csv)"

text \<open>
  One row's effect on the state of the loop: the progress reports are untouched, calls
  are only added, and the row counts as exactly one success or as exactly one error
  carrying its row number.
\<close>

definition one_outcome :: "item \<Rightarrow> apply_state \<Rightarrow> apply_state \<Rightarrow> bool" where
  "one_outcome it st st' =
     (progress st' = progress st \<and> (\<exists>cs. calls st' = calls st @ cs) \<and>
      ((totalSuccess st' = totalSuccess st + 1 \<and> allErrors st' = allErrors st) \<or>
       (totalSuccess st' = totalSuccess st \<and>
        (\<exists>m. allErrors st' = allErrors st @ [\<lparr> row = originalRowIndex it, message = m \<rparr>]))))"

text \<open>The calls that write the upload log, and those that touch items or stock.\<close>

fun is_log_insert :: "call \<Rightarrow> bool" where
  "is_log_insert (CsvUploadLogInsert l) = True"
| "is_log_insert c = False"

fun is_item_or_stock_call :: "call \<Rightarrow> bool" where
  "is_item_or_stock_call AuthGetUser = False"
| "is_item_or_stock_call (CsvUploadLogInsert l) = False"
| "is_item_or_stock_call c = True"

section \<open>Example inputs\<close>

definition example_categories :: "category list" where
  "example_categories = [\<lparr> cat_id = ''c1'', category_name = ''Raw Materials'' \<rparr>]"

definition example_csv :: CSVData where
  "example_csv =
     \<lparr> headers = [''item_name'', ''category_name'', ''uom''],
       rows = [[''Bolt'', ''raw materials'', ''PCS''],
               [''Nut'', ''Packaging'', ''KG'']] \<rparr>"

definition one_row_csv :: CSVData where
  "one_row_csv =
     \<lparr> headers = [''item_name'', ''category_name'', ''uom''],
       rows = [[''Bolt'', ''raw materials'', ''PCS'']] \<rparr>"

definition skip_both :: "ConflictItem list" where
  "skip_both =
     [\<lparr> conflict_row = 2, conflict_item_code = ''RAW-001'', conflict_action = ActionSkip,
         conflict_data = [] \<rparr>,
      \<lparr> conflict_row = 3, conflict_item_code = ''RAW-001'', conflict_action = ActionSkip,
         conflict_data = [] \<rparr>]"

definition skip_first :: "ConflictItem list" where
  "skip_first =
     [\<lparr> conflict_row = 2, conflict_item_code = ''RAW-001'', conflict_action = ActionSkip,
         conflict_data = [] \<rparr>]"


text \<open>A backend where every call succeeds and a user is signed in.\<close>

fun backend_ok :: backend where
  "backend_ok cs AuthGetUser = Resolved (Some ''user-1'') None"
| "backend_ok cs (GenerateItemCode c q s g) = Resolved (Some ''RAW-001'') None"
| "backend_ok cs (CategoriesInsert n d) = Resolved (Some ''c2'') None"
| "backend_ok cs c = Resolved None None"

text \<open>The same, but the insert into \<^verbatim>\<open>stock\<close> answers with an error.\<close>

fun backend_stock_denied :: backend where
  "backend_stock_denied cs (StockInsert code) =
     Resolved None (Some (JsError False ''permission denied for table stock''))"
| "backend_stock_denied cs c = backend_ok cs c"

text \<open>The same as the first, but no user is signed in.\<close>

fun backend_no_user :: backend where
  "backend_no_user cs AuthGetUser = Resolved None None"
| "backend_no_user cs c = backend_ok cs c"

text \<open>The same as the first, but the insert into the upload log answers with an error.\<close>

fun backend_log_denied :: backend where
  "backend_log_denied cs (CsvUploadLogInsert l) =
     Resolved None (Some (JsError False ''permission denied for table csv_upload_log''))"
| "backend_log_denied cs c = backend_ok cs c"





text \<open>An opening-stock row with a category, and the state before the first row.\<close>

definition category_row :: js_object where
  "category_row = [(''item_code'', ''PKG001''), (''opening_qty'', ''500''),
                   (''category'', ''Packaging'')]"

definition empty_opening_state :: opening_state where
  "empty_opening_state = \<lparr> os_calls = [], os_success = 0, os_errors = [] \<rparr>"


section \<open>Properties of the stock summary view\<close>

lemma stock_summary_rowE:
  assumes "r \<in> set (stock_summary t db)"
  obtains s im c where "s \<in> set (stock db)" and "r = summary_row t db s im c"
  using assms by (auto simp: stock_summary_def)

lemma coalesce_simps [simp]: "coalesce None d = d" "coalesce (Some v) d = v"
  by (simp_all add: coalesce_def)



lemma total_grn_qty_sum:
  "coalesce (grn_totals db code) 0 =
     sum_list (map qty_received (filter (\<lambda>g. grn_item_code g = code) (grn_log db)))"
  by (simp add: grn_totals_def Let_def)

lemma total_issued_qty_sum:
  "coalesce (issue_totals db code) 0 =
     sum_list (map qty_issued (filter (\<lambda>i. issue_item_code i = code) (issue_log db)))"
  by (simp add: issue_totals_def Let_def)




text \<open>
  Claim C5. For every row of the view the calculated quantity is the opening quantity
  plus the total received minus the total issued, where each total is the sum over the
  item's log rows and so 0 when there are none, and the validation status is
  \<open>MISMATCH\<close> exactly when the calculated and the current quantity differ by more
  than 0.01 and \<open>OK\<close> otherwise. The status is one more column of the row: the view
  is a function of the tables and changes none of them.
\<close>

theorem calculated_qty_and_validation_status:
  assumes "r \<in> set (stock_summary current_date db)"
  shows "calculated_qty r = opening_qty r + total_grn_qty r - total_issued_qty r \<and>
         total_grn_qty r =
           sum_list (map qty_received
             (filter (\<lambda>g. grn_item_code g = item_code r) (grn_log db))) \<and>
         total_issued_qty r =
           sum_list (map qty_issued
             (filter (\<lambda>i. issue_item_code i = item_code r) (issue_log db))) \<and>
         stock_validation_status r =
           (if \<bar>calculated_qty r - current_qty r\<bar> > 1 / 100 then ''MISMATCH'' else ''OK'')"
  using assms
  by (auto elim!: stock_summary_rowE
      simp: summary_row_def Let_def validation_status_case_def
        total_grn_qty_sum total_issued_qty_sum)

theorem calculated_qty_and_validation_status_witness:
  "hd (stock_summary example_today example_db) \<in> set (stock_summary example_today example_db) \<and>
   calculated_qty (hd (stock_summary example_today example_db)) = 100 + 50 - 30 \<and>
   stock_validation_status (hd (stock_summary example_today example_db)) = ''OK''"
proof -
  have m: "hd (stock_summary example_today example_db)
             \<in> set (stock_summary example_today example_db)"
    by code_simp
  have v: "opening_qty (hd (stock_summary example_today example_db)) = 100"
    "total_grn_qty (hd (stock_summary example_today example_db)) = 50"
    "total_issued_qty (hd (stock_summary example_today example_db)) = 30"
    "current_qty (hd (stock_summary example_today example_db)) = 120"
    by code_simp+
  from calculated_qty_and_validation_status [OF m] v m show ?thesis by simp
qed



section \<open>Properties of the item-master apply step\<close>

lemma await_simps [simp]:
  "fst (await be c st) = be (calls st) c"
  "snd (await be c st) = st\<lparr>calls := calls st @ [c]\<rparr>"
  by (simp_all add: await_def)

lemma update_item_progress:
  "update_item be cat it code (st\<lparr>progress := p\<rparr>) = (update_item be cat it code st)\<lparr>progress := p\<rparr>"
  by (simp add: update_item_def await_def push_error_def count_success_def
      split: reply.splits option.splits)

lemma insert_item_progress:
  "insert_item be cat it code (st\<lparr>progress := p\<rparr>) = (insert_item be cat it code st)\<lparr>progress := p\<rparr>"
  by (simp add: insert_item_def await_def push_error_def count_success_def
      split: reply.splits option.splits)

lemma progress_calls_commute:
  "st\<lparr>progress := p, calls := cs\<rparr> = st\<lparr>calls := cs, progress := p\<rparr>"
  by (cases st) simp

lemma update_item_progress_calls:
  "update_item be cat it code (st\<lparr>progress := p, calls := cs\<rparr>) =
     (update_item be cat it code (st\<lparr>calls := cs\<rparr>))\<lparr>progress := p\<rparr>"
  using update_item_progress [where st = "st\<lparr>calls := cs\<rparr>" and p = p]
  by (simp add: progress_calls_commute)

lemma insert_item_progress_calls:
  "insert_item be cat it code (st\<lparr>progress := p, calls := cs\<rparr>) =
     (insert_item be cat it code (st\<lparr>calls := cs\<rparr>))\<lparr>progress := p\<rparr>"
  using insert_item_progress [where st = "st\<lparr>calls := cs\<rparr>" and p = p]
  by (simp add: progress_calls_commute)

lemma process_item_progress:
  "process_item be cats conflicts it (st\<lparr>progress := p\<rparr>) =
     (process_item be cats conflicts it st)\<lparr>progress := p\<rparr>"
  by (simp add: process_item_def await_def push_error_def
      update_item_progress_calls insert_item_progress_calls
      split: reply.splits option.splits)

lemma fold_process_item_progress:
  "fold (process_item be cats conflicts) its (st\<lparr>progress := p\<rparr>) =
     (fold (process_item be cats conflicts) its st)\<lparr>progress := p\<rparr>"
  by (induction its arbitrary: st) (simp_all add: process_item_progress)

lemma update_item_outcome: "one_outcome it st (update_item be cat it code st)"
  by (simp add: one_outcome_def update_item_def await_def push_error_def count_success_def
      split: reply.splits option.splits)

lemma insert_item_outcome: "one_outcome it st (insert_item be cat it code st)"
  by (simp add: one_outcome_def insert_item_def await_def push_error_def count_success_def
      split: reply.splits option.splits)

lemma one_outcome_after_call:
  "one_outcome it (st\<lparr>calls := calls st @ [c]\<rparr>) st' \<Longrightarrow> one_outcome it st st'"
  by (auto simp: one_outcome_def)

lemma process_item_outcome: "one_outcome it st (process_item be cats conflicts it st)"
proof (cases "find_category cats (property (item_data it) ''category_name'')")
  case None
  then show ?thesis by (simp add: process_item_def one_outcome_def push_error_def)
next
  case (Some cat)
  let ?c = "generate_item_code cat it"
  let ?st1 = "st\<lparr>calls := calls st @ [?c]\<rparr>"
  show ?thesis
  proof (cases "be (calls st) ?c")
    case (Rejected e)
    with Some show ?thesis
      by (simp add: process_item_def await_def one_outcome_def push_error_def)
  next
    case (Resolved d codeError)
    show ?thesis
    proof (cases codeError)
      case None
      have "one_outcome it st (update_item be cat it d ?st1)"
        "one_outcome it st (insert_item be cat it d ?st1)"
        by (rule one_outcome_after_call, rule update_item_outcome)
          (rule one_outcome_after_call, rule insert_item_outcome)
      with Some Resolved None show ?thesis
        by (simp add: process_item_def await_def)
    next
      case (Some e)
      with \<open>find_category _ _ = Some cat\<close> Resolved show ?thesis
        by (simp add: process_item_def await_def one_outcome_def push_error_def)
    qed
  qed
qed

lemma upload_loop_fold:
  "upload_loop be cats conflicts its i st =
     (fold (process_item be cats conflicts) (drop i its) st)
       \<lparr>progress := progress (upload_loop be cats conflicts its i st)\<rparr>"
proof (induction be cats conflicts its i st rule: upload_loop.induct)
  case (1 be cats conflicts its i st)
  show ?case
  proof (cases "i < length its")
    case False
    then show ?thesis by simp
  next
    case True
    let ?batch = "take batchSize (drop i its)"
    let ?st1 = "fold (process_item be cats conflicts) ?batch st"
    let ?st2 = "?st1\<lparr>progress := progress ?st1 @ [(i + length ?batch, length its)]\<rparr>"
    have split: "drop i its = ?batch @ drop (i + batchSize) its"
      by (metis append_take_drop_id drop_drop add.commute)
    have step: "upload_loop be cats conflicts its i st =
                upload_loop be cats conflicts its (i + batchSize) ?st2"
      using True by (subst upload_loop.simps) (simp add: Let_def)
    have ih: "upload_loop be cats conflicts its (i + batchSize) ?st2 =
       (fold (process_item be cats conflicts) (drop (i + batchSize) its) ?st2)
         \<lparr>progress := progress (upload_loop be cats conflicts its (i + batchSize) ?st2)\<rparr>"
      using "1.IH" [OF True refl refl refl] .
    have "fold (process_item be cats conflicts) (drop i its) st =
          fold (process_item be cats conflicts) (drop (i + batchSize) its) ?st1"
      by (subst split) simp
    then show ?thesis
      unfolding step by (subst ih) (simp add: fold_process_item_progress)
  qed
qed

lemma fold_process_item_counts:
  "totalSuccess (fold (process_item be cats conflicts) its st) +
     length (allErrors (fold (process_item be cats conflicts) its st)) =
   totalSuccess st + length (allErrors st) + length its"
proof (induction its arbitrary: st)
  case Nil
  show ?case by simp
next
  case (Cons it its)
  have "one_outcome it st (process_item be cats conflicts it st)"
    by (rule process_item_outcome)
  then have "totalSuccess (process_item be cats conflicts it st) +
      length (allErrors (process_item be cats conflicts it st)) =
      totalSuccess st + length (allErrors st) + 1"
    by (auto simp: one_outcome_def)
  with Cons.IH [of "process_item be cats conflicts it st"] show ?case by simp
qed

lemma fold_process_item_errors:
  "\<exists>es. allErrors (fold (process_item be cats conflicts) its st) = allErrors st @ es \<and>
        subseq (map row es) (map originalRowIndex its)"
proof (induction its arbitrary: st)
  case Nil
  show ?case by simp
next
  case (Cons it its)
  let ?st1 = "process_item be cats conflicts it st"
  obtain es where es: "allErrors (fold (process_item be cats conflicts) its ?st1) = allErrors ?st1 @ es"
    "subseq (map row es) (map originalRowIndex its)"
    using Cons.IH [of ?st1] by blast
  have "one_outcome it st ?st1"
    by (rule process_item_outcome)
  then consider "allErrors ?st1 = allErrors st"
    | m where "allErrors ?st1 = allErrors st @ [\<lparr> row = originalRowIndex it, message = m \<rparr>]"
    by (auto simp: one_outcome_def)
  then show ?case
  proof cases
    case 1
    with es show ?thesis by (auto intro: subseq_Cons')
  next
    case (2 m)
    with es have "allErrors (fold (process_item be cats conflicts) (it # its) st) =
        allErrors st @ (\<lparr> row = originalRowIndex it, message = m \<rparr> # es)"
      by simp
    moreover have "subseq (map row (\<lparr> row = originalRowIndex it, message = m \<rparr> # es))
        (map originalRowIndex (it # its))"
      using es(2) by simp
    ultimately show ?thesis by blast
  qed
qed

lemma fold_process_item_no_calls_prefix:
  "\<exists>cs. calls (fold (process_item be cats conflicts) its st) = calls st @ cs"
proof (induction its arbitrary: st)
  case Nil
  show ?case by simp
next
  case (Cons it its)
  have "one_outcome it st (process_item be cats conflicts it st)"
    by (rule process_item_outcome)
  then obtain cs where "calls (process_item be cats conflicts it st) = calls st @ cs"
    by (auto simp: one_outcome_def)
  with Cons.IH [of "process_item be cats conflicts it st"] show ?case by auto
qed

lemma originalRowIndex_upload_items:
  "i < length (upload_items csv) \<Longrightarrow> originalRowIndex (upload_items csv ! i) = i + 2"
  by (simp add: upload_items_def)

lemma length_upload_items [simp]: "length (upload_items csv) = length (rows csv)"
  by (simp add: upload_items_def)

lemma itemsToProcess_filter:
  assumes "\<And>i. i < length its \<Longrightarrow> originalRowIndex (its ! i) = i + 2"
  shows "itemsToProcess conflicts its = filter (\<lambda>it. \<not> is_skipped conflicts (originalRowIndex it)) its"
proof -
  have "filter (\<lambda>(it, index). keep_item conflicts index) (zip its [0..<length its]) =
        filter (\<lambda>p. \<not> is_skipped conflicts (originalRowIndex (fst p))) (zip its [0..<length its])"
  proof (rule filter_cong [OF refl])
    fix p assume "p \<in> set (zip its [0..<length its])"
    then obtain i where "i < length its" "p = (its ! i, i)"
      by (auto simp: set_zip)
    then show "(case p of (it, index) \<Rightarrow> keep_item conflicts index) = (\<not> is_skipped conflicts (originalRowIndex (fst p)))"
      using assms [of i]
      by (simp add: keep_item_def is_skipped_def split: option.splits)
  qed
  moreover have "filter (\<lambda>it. \<not> is_skipped conflicts (originalRowIndex it)) (map fst (zip its [0..<length its])) =
        map fst (filter (\<lambda>p. \<not> is_skipped conflicts (originalRowIndex (fst p))) (zip its [0..<length its]))"
    by (simp only: filter_map comp_def)
  moreover have "map fst (zip its [0..<length its]) = its"
    by simp
  ultimately show ?thesis
    by (simp add: itemsToProcess_def)
qed

lemma itemsToProcess_upload_items:
  "itemsToProcess conflicts (upload_items csv) = kept_items conflicts csv"
  unfolding kept_items_def
  by (rule itemsToProcess_filter) (rule originalRowIndex_upload_items)

lemma apply_rows_fold:
  "apply_rows be cats conflicts csv =
     (fold (process_item be cats conflicts) (kept_items conflicts csv) initial_state)
       \<lparr>progress := progress (apply_rows be cats conflicts csv)\<rparr>"
  unfolding apply_rows_def itemsToProcess_upload_items
  by (subst upload_loop_fold) simp

lemma apply_rows_counts:
  "totalSuccess (apply_rows be cats conflicts csv) + length (allErrors (apply_rows be cats conflicts csv)) =
     length (kept_items conflicts csv)"
  by (subst (1 2) apply_rows_fold) (simp add: fold_process_item_counts initial_state_def)

lemma apply_rows_errors_subseq:
  "subseq (map row (allErrors (apply_rows be cats conflicts csv)))
     (map originalRowIndex (kept_items conflicts csv))"
proof -
  obtain es where "allErrors (fold (process_item be cats conflicts) (kept_items conflicts csv) initial_state)
      = allErrors initial_state @ es" "subseq (map row es) (map originalRowIndex (kept_items conflicts csv))"
    using fold_process_item_errors by blast
  then show ?thesis
    by (subst apply_rows_fold) (simp add: initial_state_def)
qed

lemma subseq_member: "subseq xs ys \<Longrightarrow> x \<in> set xs \<Longrightarrow> x \<in> set ys"
  by (erule list_emb_set) auto

lemma apply_rows_errors_not_skipped:
  assumes "e \<in> set (allErrors (apply_rows be cats conflicts csv))"
  shows "\<not> is_skipped conflicts (row e)"
proof -
  have "row e \<in> set (map row (allErrors (apply_rows be cats conflicts csv)))"
    using assms by simp
  with apply_rows_errors_subseq [of be cats conflicts csv]
  have "row e \<in> set (map originalRowIndex (kept_items conflicts csv))"
    by (rule subseq_member)
  then show ?thesis
    by (auto simp: kept_items_def)
qed

lemma apply_rows_all_skipped:
  assumes "kept_items conflicts csv = []"
  shows "apply_rows be cats conflicts csv = initial_state"
  unfolding apply_rows_def itemsToProcess_upload_items assms
  by (simp add: initial_state_def)


text \<open>
  Claim C3. The apply step is the row-by-row processing of the rows that are not marked
  \<^verbatim>\<open>skip\<close>, so a skipped row causes no call to the service; successes and errors
  together count exactly the rows that are not skipped, and no error carries the row
  number of a skipped row. When every row is skipped, the apply step makes no call at
  all, no call of the whole upload touches items or stock, and, the user lookup and the
  upload-log insert having returned, the reported result has a success count of 0, no
  errors, and a total equal to the number of parsed data rows.
\<close>

theorem skipped_rows_are_omitted:
  "apply_rows be cats conflicts csv =
     (fold (process_item be cats conflicts) (kept_items conflicts csv) initial_state)
       \<lparr>progress := progress (apply_rows be cats conflicts csv)\<rparr> \<and>
   totalSuccess (apply_rows be cats conflicts csv) +
     length (allErrors (apply_rows be cats conflicts csv)) = length (kept_items conflicts csv) \<and>
   (\<forall>e \<in> set (allErrors (apply_rows be cats conflicts csv)). \<not> is_skipped conflicts (row e)) \<and>
   (kept_items conflicts csv = [] \<longrightarrow>
      apply_rows be cats conflicts csv = initial_state \<and>
      filter is_item_or_stock_call (backend_calls (executeUpload be cats conflicts file_name csv)) = [] \<and>
      (\<forall>user e. be [] AuthGetUser = Resolved user e \<longrightarrow>
         (\<forall>uid. user = Some uid \<longrightarrow>
            (\<exists>d e2. be [AuthGetUser]
                      (CsvUploadLogInsert (upload_log_entry uid file_name csv initial_state)) =
                    Resolved d e2)) \<longrightarrow>
         uploadResult (executeUpload be cats conflicts file_name csv) =
           Some \<lparr> success = 0, errors = [], total = length (rows csv) \<rparr>))"
proof (intro conjI impI allI)
  show "apply_rows be cats conflicts csv =
     (fold (process_item be cats conflicts) (kept_items conflicts csv) initial_state)
       \<lparr>progress := progress (apply_rows be cats conflicts csv)\<rparr>"
    by (rule apply_rows_fold)
  show "totalSuccess (apply_rows be cats conflicts csv) +
     length (allErrors (apply_rows be cats conflicts csv)) = length (kept_items conflicts csv)"
    by (rule apply_rows_counts)
  show "\<forall>e \<in> set (allErrors (apply_rows be cats conflicts csv)). \<not> is_skipped conflicts (row e)"
    by (blast dest: apply_rows_errors_not_skipped)
next
  assume k: "kept_items conflicts csv = []"
  then show st: "apply_rows be cats conflicts csv = initial_state"
    by (rule apply_rows_all_skipped)
  show "filter is_item_or_stock_call (backend_calls (executeUpload be cats conflicts file_name csv)) = []"
    by (simp add: executeUpload_def st Let_def await_def report_def initial_state_def
        split: reply.splits option.splits)
  fix user e
  assume u: "be [] AuthGetUser = Resolved user e"
    and l: "\<forall>uid. user = Some uid \<longrightarrow>
            (\<exists>d e2. be [AuthGetUser]
                      (CsvUploadLogInsert (upload_log_entry uid file_name csv initial_state)) =
                    Resolved d e2)"
  show "uploadResult (executeUpload be cats conflicts file_name csv) =
           Some \<lparr> success = 0, errors = [], total = length (rows csv) \<rparr>"
  proof (cases user)
    case None
    with u show ?thesis
      by (simp add: executeUpload_def st Let_def await_def report_def reported_def initial_state_def)
  next
    case (Some uid)
    with l obtain d e2 where "be [AuthGetUser]
        (CsvUploadLogInsert (upload_log_entry uid file_name csv initial_state)) = Resolved d e2"
      by blast
    with u Some show ?thesis
      by (simp add: executeUpload_def st Let_def await_def report_def reported_def
          initial_state_def upload_log_entry_def)
  qed
qed

theorem skipped_rows_are_omitted_witness:
  "kept_items skip_both example_csv = [] \<and>
   apply_rows backend_ok example_categories skip_both example_csv = initial_state \<and>
   filter is_item_or_stock_call
     (backend_calls (executeUpload backend_ok example_categories skip_both ''items.csv'' example_csv)) = [] \<and>
   uploadResult (executeUpload backend_ok example_categories skip_both ''items.csv'' example_csv) =
     Some \<lparr> success = 0, errors = [], total = 2 \<rparr> \<and>
   map row (allErrors (apply_rows backend_ok example_categories skip_first example_csv)) = [3] \<and>
   is_skipped skip_first 3 = False \<and>
   totalSuccess (apply_rows backend_ok example_categories skip_first example_csv) + 1 = 1"
proof -
  note inst1 = skipped_rows_are_omitted [of backend_ok example_categories skip_both example_csv "''items.csv''"]
  note inst2 = skipped_rows_are_omitted [of backend_ok example_categories skip_first example_csv "''items.csv''"]
  have k: "kept_items skip_both example_csv = []"
    by code_simp
  have u: "backend_ok [] AuthGetUser = Resolved (Some ''user-1'') None"
    by simp
  have l: "\<exists>d e2. backend_ok [AuthGetUser]
      (CsvUploadLogInsert (upload_log_entry uid ''items.csv'' example_csv initial_state)) = Resolved d e2" for uid
    by simp
  have n: "length (rows example_csv) = 2"
    by (simp add: example_csv_def)
  have e: "map row (allErrors (apply_rows backend_ok example_categories skip_first example_csv)) = [3]"
    by code_simp
  have k2: "length (kept_items skip_first example_csv) = 1"
    by code_simp
  from inst1 k u l n have "apply_rows backend_ok example_categories skip_both example_csv = initial_state"
    "filter is_item_or_stock_call
     (backend_calls (executeUpload backend_ok example_categories skip_both ''items.csv'' example_csv)) = []"
    "uploadResult (executeUpload backend_ok example_categories skip_both ''items.csv'' example_csv) =
     Some \<lparr> success = 0, errors = [], total = 2 \<rparr>"
    by auto
  moreover from inst2 e k2 have "is_skipped skip_first 3 = False"
    "totalSuccess (apply_rows backend_ok example_categories skip_first example_csv) + 1 = 1"
    by (auto dest: arg_cong [where f = length])
  ultimately show ?thesis using k e by simp
qed



section \<open>Completion of the upload\<close>

lemma update_item_log_calls:
  "filter is_log_insert (calls (update_item be cat it code st)) = filter is_log_insert (calls st)"
  by (simp add: update_item_def await_def push_error_def count_success_def
      split: reply.splits option.splits)

lemma insert_item_log_calls:
  "filter is_log_insert (calls (insert_item be cat it code st)) = filter is_log_insert (calls st)"
  by (simp add: insert_item_def await_def push_error_def count_success_def
      split: reply.splits option.splits)

lemma process_item_log_calls:
  "filter is_log_insert (calls (process_item be cats conflicts it st)) =
     filter is_log_insert (calls st)"
  by (simp add: process_item_def await_def push_error_def generate_item_code_def
      update_item_log_calls insert_item_log_calls
      split: reply.splits option.splits)

lemma fold_process_item_log_calls:
  "filter is_log_insert (calls (fold (process_item be cats conflicts) its st)) =
     filter is_log_insert (calls st)"
  by (induction its arbitrary: st) (simp_all add: process_item_log_calls)

lemma apply_rows_log_calls:
  "filter is_log_insert (calls (apply_rows be cats conflicts csv)) = []"
  by (subst apply_rows_fold) (simp add: fold_process_item_log_calls initial_state_def)

text \<open>
  Claim C9, as the program does it. After the apply step the upload metadata (user, file
  name, type \<^verbatim>\<open>item_master\<close>, number of rows, of successes and of errors, and the
  error list) is written to the upload log at most once: exactly once when the user
  lookup returns a signed-in user, and not at all when it returns none. Whenever the
  write returns, with an error or without, the reported result is the success count and
  error list of the apply step and the number of data rows as total.
\<close>

theorem upload_log_written_at_most_once:
  "length (filter is_log_insert (backend_calls (executeUpload be cats conflicts file_name csv))) \<le> 1 \<and>
   (\<forall>uid e. be (calls (apply_rows be cats conflicts csv)) AuthGetUser = Resolved (Some uid) e \<longrightarrow>
      filter is_log_insert (backend_calls (executeUpload be cats conflicts file_name csv)) =
        [CsvUploadLogInsert
           (upload_log_entry uid file_name csv (apply_rows be cats conflicts csv))] \<and>
      (\<forall>d e2.
         be (calls (apply_rows be cats conflicts csv) @ [AuthGetUser])
            (CsvUploadLogInsert
               (upload_log_entry uid file_name csv (apply_rows be cats conflicts csv))) =
           Resolved d e2 \<longrightarrow>
         uploadResult (executeUpload be cats conflicts file_name csv) =
           Some \<lparr> success = totalSuccess (apply_rows be cats conflicts csv),
                  errors = allErrors (apply_rows be cats conflicts csv),
                  total = length (rows csv) \<rparr>)) \<and>
   (\<forall>e. be (calls (apply_rows be cats conflicts csv)) AuthGetUser = Resolved None e \<longrightarrow>
      filter is_log_insert (backend_calls (executeUpload be cats conflicts file_name csv)) = [] \<and>
      uploadResult (executeUpload be cats conflicts file_name csv) =
        Some \<lparr> success = totalSuccess (apply_rows be cats conflicts csv),
               errors = allErrors (apply_rows be cats conflicts csv),
               total = length (rows csv) \<rparr>)"
  using apply_rows_log_calls [of be cats conflicts csv]
  by (auto simp: executeUpload_def Let_def await_def report_def reported_def upload_log_entry_def
      split: reply.splits option.splits)


theorem upload_log_written_at_most_once_witness:
  "backend_log_denied (calls (apply_rows backend_log_denied example_categories [] one_row_csv))
     AuthGetUser = Resolved (Some ''user-1'') None \<and>
   backend_log_denied
     (calls (apply_rows backend_log_denied example_categories [] one_row_csv) @ [AuthGetUser])
     (CsvUploadLogInsert (upload_log_entry ''user-1'' ''items.csv'' one_row_csv
        (apply_rows backend_log_denied example_categories [] one_row_csv))) =
     Resolved None (Some (JsError False ''permission denied for table csv_upload_log'')) \<and>
   length (filter is_log_insert
     (backend_calls (executeUpload backend_log_denied example_categories [] ''items.csv''
        one_row_csv))) = 1 \<and>
   uploadResult (executeUpload backend_log_denied example_categories [] ''items.csv'' one_row_csv) =
     Some \<lparr> success = 1, errors = [], total = 1 \<rparr> \<and>
   backend_no_user (calls (apply_rows backend_no_user example_categories [] one_row_csv))
     AuthGetUser = Resolved None None \<and>
   uploadResult (executeUpload backend_no_user example_categories [] ''items.csv'' one_row_csv) =
     Some \<lparr> success = 1, errors = [], total = 1 \<rparr>"
proof -
  have u: "backend_log_denied (calls (apply_rows backend_log_denied example_categories [] one_row_csv))
     AuthGetUser = Resolved (Some ''user-1'') None"
    by simp
  have l: "backend_log_denied
     (calls (apply_rows backend_log_denied example_categories [] one_row_csv) @ [AuthGetUser])
     (CsvUploadLogInsert (upload_log_entry ''user-1'' ''items.csv'' one_row_csv
        (apply_rows backend_log_denied example_categories [] one_row_csv))) =
     Resolved None (Some (JsError False ''permission denied for table csv_upload_log''))"
    by simp
  have n: "backend_no_user (calls (apply_rows backend_no_user example_categories [] one_row_csv))
     AuthGetUser = Resolved None None"
    by simp
  have v: "totalSuccess (apply_rows backend_log_denied example_categories [] one_row_csv) = 1"
    "allErrors (apply_rows backend_log_denied example_categories [] one_row_csv) = []"
    "totalSuccess (apply_rows backend_no_user example_categories [] one_row_csv) = 1"
    "allErrors (apply_rows backend_no_user example_categories [] one_row_csv) = []"
    "length (rows one_row_csv) = 1"
    by code_simp+
  from upload_log_written_at_most_once
         [of backend_log_denied example_categories "[]" "''items.csv''" one_row_csv] u l
  have "length (filter is_log_insert
     (backend_calls (executeUpload backend_log_denied example_categories [] ''items.csv''
        one_row_csv))) = 1"
    and "uploadResult (executeUpload backend_log_denied example_categories [] ''items.csv''
        one_row_csv) =
      Some \<lparr> success = totalSuccess (apply_rows backend_log_denied example_categories [] one_row_csv),
             errors = allErrors (apply_rows backend_log_denied example_categories [] one_row_csv),
             total = length (rows one_row_csv) \<rparr>"
    by auto
  moreover from upload_log_written_at_most_once
         [of backend_no_user example_categories "[]" "''items.csv''" one_row_csv] n
  have "uploadResult (executeUpload backend_no_user example_categories [] ''items.csv''
        one_row_csv) =
      Some \<lparr> success = totalSuccess (apply_rows backend_no_user example_categories [] one_row_csv),
             errors = allErrors (apply_rows backend_no_user example_categories [] one_row_csv),
             total = length (rows one_row_csv) \<rparr>"
    by auto
  ultimately show ?thesis
    using u l n unfolding v by simp
qed

text \<open>
  Claim C9 as stated does not hold: when the user lookup returns no user, the upload
  completes and reports its result without any write to the upload log.
\<close>

theorem upload_log_not_written_counterexample:
  "backend_calls (executeUpload backend_no_user example_categories [] ''items.csv'' one_row_csv) =
     [generate_item_code (hd example_categories) (hd (upload_items one_row_csv)),
      ItemMasterInsert (Some ''RAW-001'')
        (item_payload (hd example_categories) (hd (upload_items one_row_csv))),
      StockInsert (Some ''RAW-001''),
      AuthGetUser] \<and>
   length (filter is_log_insert
     (backend_calls (executeUpload backend_no_user example_categories [] ''items.csv''
        one_row_csv))) = 0 \<and>
   uploadResult (executeUpload backend_no_user example_categories [] ''items.csv'' one_row_csv) =
     Some \<lparr> success = 1, errors = [], total = 1 \<rparr>"
  by code_simp

text \<open>
  Claim C2 says that any failure of a row, an insert failure included, is recorded as an
  error of that row. The program does not look at the answer of the insert into
  \<^verbatim>\<open>stock\<close> that follows a successful item insert: on a one-row file whose stock
  insert is answered with an error, the row is counted as a success and the error list
  is empty. (That no row's outcome stops the rows after it, and that the batches keep
  the file order, are the lemmas \<open>process_item_outcome\<close>, \<open>upload_loop_fold\<close>,
  \<open>apply_rows_counts\<close> and \<open>apply_rows_errors_subseq\<close> above.)
\<close>

theorem stock_insert_error_counted_as_success:
  "backend_calls (executeUpload backend_stock_denied example_categories [] ''items.csv''
      one_row_csv) =
     [generate_item_code (hd example_categories) (hd (upload_items one_row_csv)),
      ItemMasterInsert (Some ''RAW-001'')
        (item_payload (hd example_categories) (hd (upload_items one_row_csv))),
      StockInsert (Some ''RAW-001''),
      AuthGetUser,
      CsvUploadLogInsert
        \<lparr> log_user_id = ''user-1'', log_file_name = ''items.csv'',
          log_file_type = ''item_master'', log_total_rows = 1, log_success_rows = 1,
          log_error_rows = 0, log_errors = [] \<rparr>] \<and>
   backend_stock_denied
     [generate_item_code (hd example_categories) (hd (upload_items one_row_csv)),
      ItemMasterInsert (Some ''RAW-001'')
        (item_payload (hd example_categories) (hd (upload_items one_row_csv)))]
     (StockInsert (Some ''RAW-001'')) =
     Resolved None (Some (JsError False ''permission denied for table stock'')) \<and>
   uploadResult (executeUpload backend_stock_denied example_categories [] ''items.csv''
      one_row_csv) =
     Some \<lparr> success = 1, errors = [], total = 1 \<rparr>"
  by code_simp

section \<open>Properties of the row validation\<close>








section \<open>Properties of the parser\<close>

lemma parseCSV_error_iff:
  "(\<exists>e. parseCSV text = Inl e) \<longleftrightarrow> (\<forall>line \<in> set (split CHR 0x0A text). trim line = [])"
proof -
  have "(\<exists>e. parseCSV text = Inl e) \<longleftrightarrow>
        filter (\<lambda>line. trim line \<noteq> []) (split CHR 0x0A text) = []"
    by (simp add: parseCSV_def split: list.splits)
  then show ?thesis
    by (simp add: filter_empty_conv)
qed

lemma parseCSV_error_message:
  "parseCSV text = Inl e \<Longrightarrow> e = ParseError ''CSV file is empty''"
  by (auto simp: parseCSV_def split: list.splits)

lemma scan_line_quote_toggles:
  "scan_line (CHR 0x22 # cs) cells current inQuotes = scan_line cs cells current (\<not> inQuotes)"
  by simp

lemma scan_line_comma_in_quotes:
  "scan_line (CHR '','' # cs) cells current True = scan_line cs cells (current @ '','') True"
  by simp

lemma scan_line_comma_outside_quotes:
  "scan_line (CHR '','' # cs) cells current False =
     scan_line cs (cells @ [strip_quotes (trim current)]) [] False"
  by simp

text \<open>
  Claim C7 describes one tokenization for the header row and the data rows, in which a
  comma between double quotes does not separate fields. The data rows are read that way
  (the lemmas above), and the parse fails exactly when no line is non-blank
  (\<open>parseCSV_error_iff\<close>). The header line, however, is cut at every comma, quoted or
  not: a quoted header with a comma becomes two columns, while the quoted cell below it
  stays one, so every later cell of the row is read under the wrong column.
\<close>

theorem header_line_split_inside_quotes:
  \<open>parseCSV (''"name, full",item_name,category_name,uom'' @ [CHR 0x0A] @
               ''"Bolt, M8",Bolt,Raw Materials,PCS'') =
     Inr \<lparr> headers = [''name'', ''full'', ''item_name'', ''category_name'', ''uom''],
           rows = [[''Bolt, M8'', ''Bolt'', ''Raw Materials'', ''PCS'']] \<rparr> \<and>
   to_object [''name'', ''full'', ''item_name'', ''category_name'', ''uom'']
     [''Bolt, M8'', ''Bolt'', ''Raw Materials'', ''PCS''] =
     [(''name'', ''Bolt, M8''), (''full'', ''Bolt''), (''item_name'', ''Raw Materials''),
      (''category_name'', ''PCS''), (''uom'', [])]\<close>
  by code_simp

section \<open>Category policy of the two imports\<close>

text \<open>
  Claim C8. In the item-master import a row whose category name is not blank and equals
  no existing category name after lower-casing both is rejected: its validation errors
  contain the error \<open>Category '...' does not exist\<close> for the field
  \<open>category_name\<close>. In the opening-stock import a row with a category for which the
  lookup returns no row leads to an insert of that category with the description
  \<open>Auto-created from CSV import\<close>; when the insert returns the new id, the row goes
  on to the upsert of the item with that category id, and with both upserts accepted it
  counts as a success without any error.
\<close>

theorem category_policy_differs:
  "(\<forall>name. property rowData ''category_name'' = Some name \<longrightarrow> trim name \<noteq> [] \<longrightarrow>
      (\<forall>cat \<in> set cats. toLowerCase (category_name cat) \<noteq> toLowerCase name) \<longrightarrow>
      \<lparr> ve_row = rowIndex + 2, ve_field = ''category_name'',
        ve_message = ''Category '' @ [CHR 0x27] @ name @ [CHR 0x27] @ '' does not exist'',
        ve_data = rowData \<rparr> \<in> set (validateRow cats rowData rowIndex)) \<and>
   (\<forall>name e0 cid.
      property r ''category'' = Some name \<longrightarrow> name \<noteq> [] \<longrightarrow>
      be (os_calls st) (CategoriesSelectIlike name) = Resolved None e0 \<longrightarrow>
      be (os_calls st @ [CategoriesSelectIlike name])
         (CategoriesInsert name ''Auto-created from CSV import'') = Resolved (Some cid) None \<longrightarrow>
      process_opening_row be (r, i) st =
        upsert_item_and_stock be r i (Some cid)
          (st\<lparr>os_calls := os_calls st @
                [CategoriesSelectIlike name,
                 CategoriesInsert name ''Auto-created from CSV import'']\<rparr>) \<and>
      (\<forall>d d2.
         be (os_calls st @ [CategoriesSelectIlike name,
                            CategoriesInsert name ''Auto-created from CSV import''])
            (ItemMasterUpsert (opening_item_payload r (Some cid))) = Resolved d None \<longrightarrow>
         be (os_calls st @ [CategoriesSelectIlike name,
                            CategoriesInsert name ''Auto-created from CSV import'',
                            ItemMasterUpsert (opening_item_payload r (Some cid))])
            (StockUpsert (property r ''item_code'') (opening_number (property r ''opening_qty''))) =
           Resolved d2 None \<longrightarrow>
         process_opening_row be (r, i) st =
           st\<lparr>os_calls := os_calls st @
                 [CategoriesSelectIlike name,
                  CategoriesInsert name ''Auto-created from CSV import'',
                  ItemMasterUpsert (opening_item_payload r (Some cid)),
                  StockUpsert (property r ''item_code'')
                    (opening_number (property r ''opening_qty''))],
              os_success := os_success st + 1\<rparr>))"
proof (intro conjI allI impI)
  fix name
  assume "property rowData ''category_name'' = Some name" "trim name \<noteq> []"
    "\<forall>cat \<in> set cats. toLowerCase (category_name cat) \<noteq> toLowerCase name"
  then have "\<not> blank (property rowData ''category_name'')"
    "find_category cats (property rowData ''category_name'') = None"
    "template (property rowData ''category_name'') = name"
    by (simp_all add: blank_def find_category_def find_None_iff template_def)
  then show "\<lparr> ve_row = rowIndex + 2, ve_field = ''category_name'',
        ve_message = ''Category '' @ [CHR 0x27] @ name @ [CHR 0x27] @ '' does not exist'',
        ve_data = rowData \<rparr> \<in> set (validateRow cats rowData rowIndex)"
    by (simp add: validateRow_def Let_def)
next
  fix name e0 cid
  assume a: "property r ''category'' = Some name" "name \<noteq> []"
    "be (os_calls st) (CategoriesSelectIlike name) = Resolved None e0"
    "be (os_calls st @ [CategoriesSelectIlike name])
         (CategoriesInsert name ''Auto-created from CSV import'') = Resolved (Some cid) None"
  then have f: "find_or_create_category be r st =
      (Inr (Some cid), st\<lparr>os_calls := os_calls st @
                [CategoriesSelectIlike name,
                 CategoriesInsert name ''Auto-created from CSV import'']\<rparr>)"
    by (simp add: find_or_create_category_def truthy_def template_def os_await_def)
  then show p: "process_opening_row be (r, i) st =
        upsert_item_and_stock be r i (Some cid)
          (st\<lparr>os_calls := os_calls st @
                [CategoriesSelectIlike name,
                 CategoriesInsert name ''Auto-created from CSV import'']\<rparr>)"
    by (simp add: process_opening_row_def)
  fix d d2
  assume "be (os_calls st @ [CategoriesSelectIlike name,
                            CategoriesInsert name ''Auto-created from CSV import''])
            (ItemMasterUpsert (opening_item_payload r (Some cid))) = Resolved d None"
    "be (os_calls st @ [CategoriesSelectIlike name,
                            CategoriesInsert name ''Auto-created from CSV import'',
                            ItemMasterUpsert (opening_item_payload r (Some cid))])
            (StockUpsert (property r ''item_code'') (opening_number (property r ''opening_qty''))) =
           Resolved d2 None"
  then show "process_opening_row be (r, i) st =
           st\<lparr>os_calls := os_calls st @
                 [CategoriesSelectIlike name,
                  CategoriesInsert name ''Auto-created from CSV import'',
                  ItemMasterUpsert (opening_item_payload r (Some cid)),
                  StockUpsert (property r ''item_code'')
                    (opening_number (property r ''opening_qty''))],
              os_success := os_success st + 1\<rparr>"
    unfolding p by (simp add: upsert_item_and_stock_def os_await_def)
qed

theorem category_policy_differs_witness:
  "property (item_data (hd (tl (upload_items example_csv)))) ''category_name'' = Some ''Packaging'' \<and>
   map ve_field (validateRow example_categories (item_data (hd (tl (upload_items example_csv)))) 1) =
     [''category_name''] \<and>
   map ve_message (validateRow example_categories (item_data (hd (tl (upload_items example_csv)))) 1) =
     [''Category '' @ [CHR 0x27] @ ''Packaging'' @ [CHR 0x27] @ '' does not exist''] \<and>
   property category_row ''category'' = Some ''Packaging'' \<and>
   backend_ok [] (CategoriesSelectIlike ''Packaging'') = Resolved None None \<and>
   process_opening_row backend_ok (category_row, 0) empty_opening_state =
     \<lparr> os_calls = [CategoriesSelectIlike ''Packaging'',
                   CategoriesInsert ''Packaging'' ''Auto-created from CSV import'',
                   ItemMasterUpsert
                     \<lparr> oi_item_code = Some ''PKG001'', oi_item_name = Some ''PKG001'',
                       oi_category_id = Some ''c2'', oi_uom = ''PCS'', oi_status = ''active'' \<rparr>,
                   StockUpsert (Some ''PKG001'') (ParseFloat ''500'')],
       os_success = 1, os_errors = [] \<rparr>"
proof -
  let ?row = "item_data (hd (tl (upload_items example_csv)))"
  have n: "property ?row ''category_name'' = Some ''Packaging''" "trim ''Packaging'' \<noteq> []"
    by code_simp+
  have l: "map (\<lambda>c. toLowerCase (category_name c)) example_categories = [''raw materials'']"
    "toLowerCase ''Packaging'' = ''packaging''"
    by code_simp+
  have c: "\<forall>cat \<in> set example_categories. toLowerCase (category_name cat) \<noteq> toLowerCase ''Packaging''"
    using l by (simp add: example_categories_def)
  have v: "map ve_field (validateRow example_categories ?row 1) = [''category_name'']"
    "map ve_message (validateRow example_categories ?row 1) =
     [''Category '' @ [CHR 0x27] @ ''Packaging'' @ [CHR 0x27] @ '' does not exist'']"
    by code_simp+
  have o: "property category_row ''category'' = Some ''Packaging''" "''Packaging'' \<noteq> []"
    "opening_item_payload category_row (Some ''c2'') =
       \<lparr> oi_item_code = Some ''PKG001'', oi_item_name = Some ''PKG001'',
         oi_category_id = Some ''c2'', oi_uom = ''PCS'', oi_status = ''active'' \<rparr>"
    "property category_row ''item_code'' = Some ''PKG001''"
    "opening_number (property category_row ''opening_qty'') = ParseFloat ''500''"
    by code_simp+
  have b: "backend_ok (os_calls empty_opening_state) (CategoriesSelectIlike ''Packaging'') = Resolved None None"
    "backend_ok (os_calls empty_opening_state @ [CategoriesSelectIlike ''Packaging''])
       (CategoriesInsert ''Packaging'' ''Auto-created from CSV import'') = Resolved (Some ''c2'') None"
    "backend_ok (os_calls empty_opening_state @ [CategoriesSelectIlike ''Packaging'',
         CategoriesInsert ''Packaging'' ''Auto-created from CSV import''])
       (ItemMasterUpsert (opening_item_payload category_row (Some ''c2''))) = Resolved None None"
    "backend_ok (os_calls empty_opening_state @ [CategoriesSelectIlike ''Packaging'',
         CategoriesInsert ''Packaging'' ''Auto-created from CSV import'',
         ItemMasterUpsert (opening_item_payload category_row (Some ''c2''))])
       (StockUpsert (property category_row ''item_code'')
          (opening_number (property category_row ''opening_qty''))) = Resolved None None"
    by simp_all
  note inst = category_policy_differs [of ?row example_categories 1 category_row backend_ok
      empty_opening_state 0]
  from inst n c have "\<lparr> ve_row = 1 + 2, ve_field = ''category_name'',
        ve_message = ''Category '' @ [CHR 0x27] @ ''Packaging'' @ [CHR 0x27] @ '' does not exist'',
        ve_data = ?row \<rparr> \<in> set (validateRow example_categories ?row 1)"
    by blast
  moreover from inst o(1,2) b have "process_opening_row backend_ok (category_row, 0) empty_opening_state =
      empty_opening_state\<lparr>os_calls := os_calls empty_opening_state @
                 [CategoriesSelectIlike ''Packaging'',
                  CategoriesInsert ''Packaging'' ''Auto-created from CSV import'',
                  ItemMasterUpsert (opening_item_payload category_row (Some ''c2'')),
                  StockUpsert (property category_row ''item_code'')
                    (opening_number (property category_row ''opening_qty''))],
              os_success := os_success empty_opening_state + 1\<rparr>"
    by blast
  ultimately show ?thesis
    using n v o b by (simp add: empty_opening_state_def)
qed

end
